theory Spec2Isabelle
  imports Main
begin

section \<open>Python values and strings\<close>

text \<open>
  Strings are byte strings (\<open>char list\<close>); the string operations below are the Python
  built-ins the server calls, read on ASCII text.
\<close>

text \<open>\<open>str.isspace\<close> on one ASCII character: TAB, LF, VT, FF, CR, FS, GS, RS, US, space.\<close>

definition is_space :: "char \<Rightarrow> bool" where
  "is_space c = (of_char c \<in> set [9, 10, 11, 12, 13, 28, 29, 30, 31, 32 :: nat])"

text \<open>\<open>s.lstrip()\<close>, \<open>s.rstrip()\<close>, \<open>s.strip()\<close>.\<close>

definition lstrip :: "string \<Rightarrow> string" where
  "lstrip s = dropWhile is_space s"

definition rstrip :: "string \<Rightarrow> string" where
  "rstrip s = rev (dropWhile is_space (rev s))"

definition strip :: "string \<Rightarrow> string" where
  "strip s = rstrip (lstrip s)"

text \<open>\<open>s.rstrip(chars)\<close> with an explicit set of characters.\<close>

definition rstrip_chars :: "string \<Rightarrow> string \<Rightarrow> string" where
  "rstrip_chars chars s = rev (dropWhile (\<lambda>c. c \<in> set chars) (rev s))"

text \<open>\<open>s.split(sep)\<close> for a one-character separator: never empty, \<open>''''.split('','') = ['''']\<close>.\<close>

fun split_acc :: "char \<Rightarrow> string \<Rightarrow> string \<Rightarrow> string list" where
  "split_acc sep acc [] = [rev acc]"
| "split_acc sep acc (c # cs) =
     (if c = sep then rev acc # split_acc sep [] cs else split_acc sep (c # acc) cs)"

definition split :: "char \<Rightarrow> string \<Rightarrow> string list" where
  "split sep s = split_acc sep [] s"

text \<open>\<open>s.startswith(p)\<close>.\<close>

definition startswith :: "string \<Rightarrow> string \<Rightarrow> bool" where
  "startswith s p = (take (length p) s = p)"

text \<open>\<open>s.lower()\<close> on ASCII: only \<open>A\<close>..\<open>Z\<close> change.\<close>

definition lower_char :: "char \<Rightarrow> char" where
  "lower_char c =
     (let n = (of_char c :: nat) in if 65 \<le> n \<and> n \<le> 90 then char_of (n + 32) else c)"

definition lower :: "string \<Rightarrow> string" where
  "lower s = map lower_char s"


text \<open>\<open>str(n)\<close> for an integer: decimal digits, a leading minus sign when negative.\<close>

definition digit_char :: "nat \<Rightarrow> char" where
  "digit_char d = char_of (48 + d)"

fun str_of_nat :: "nat \<Rightarrow> string" where
  "str_of_nat n = (if n < 10 then [digit_char n] else str_of_nat (n div 10) @ [digit_char (n mod 10)])"

declare str_of_nat.simps [simp del]

definition str_of_int :: "int \<Rightarrow> string" where
  "str_of_int i = (if i < 0 then CHR ''-'' # str_of_nat (nat (- i)) else str_of_nat (nat i))"

section \<open>JSON values and dictionaries\<close>

text \<open>
  A decoded JSON value. A Python \<open>dict\<close> is an association list in insertion order
  (its keys are distinct in every dict Python builds); a non-integral number is kept
  by its literal.
\<close>

datatype json =
    JNull
  | JBool bool
  | JInt int
  | JFloat string
  | JStr string
  | JList "json list"
  | JObj "(string \<times> json) list"

type_synonym pydict = "(string \<times> json) list"

text \<open>\<open>d[k] = v\<close>: replace the value of an existing key in place, else append.\<close>

fun dict_set :: "pydict \<Rightarrow> string \<Rightarrow> json \<Rightarrow> pydict" where
  "dict_set [] k v = [(k, v)]"
| "dict_set ((k', v') # d) k v = (if k' = k then (k, v) # d else (k', v') # dict_set d k v)"

text \<open>The keys of a record; a value that is no record has none.\<close>

fun record_keys :: "json \<Rightarrow> string set" where
  "record_keys (JObj kvs) = fst ` set kvs"
| "record_keys v = {}"

text \<open>The records a response holds: the items of a list, or the single value.\<close>

fun records_of :: "json \<Rightarrow> json list" where
  "records_of (JList items) = items"
| "records_of v = [v]"

section \<open>Result shaping: \<open>server.py\<close>\<close>

definition DEFAULT_FIELDS :: "(string \<times> string list) list" where
  "DEFAULT_FIELDS =
    [(''project'', [''id'', ''name'', ''path'', ''description'', ''web_url'', ''visibility'']),
     (''issue'', [''id'', ''iid'', ''title'', ''state'', ''author'', ''created_at'', ''web_url'']),
     (''merge_request'',
        [''id'', ''iid'', ''title'', ''state'', ''source_branch'',
         ''target_branch'', ''author'', ''web_url'']),
     (''commit'', [''id'', ''short_id'', ''title'', ''author_name'', ''created_at'', ''web_url'']),
     (''branch'', [''name'', ''commit'', ''protected'', ''web_url'']),
     (''pipeline'', [''id'', ''status'', ''ref'', ''created_at'', ''web_url'']),
     (''job'', [''id'', ''name'', ''status'', ''stage'', ''created_at'', ''web_url'']),
     (''user'', [''id'', ''username'', ''name'', ''avatar_url'']),
     (''group'', [''id'', ''name'', ''path'', ''description'', ''web_url'']),
     (''label'', [''id'', ''name'', ''color'', ''description'']),
     (''milestone'', [''id'', ''iid'', ''title'', ''state'', ''due_date'', ''web_url''])]"

text \<open>The \<open>include_fields\<close> argument when it is not \<open>None\<close>: a string or a list of names.\<close>

datatype include_spec = IncStr string | IncList "string list"

text \<open>The inner helper \<open>filter_object\<close>; \<open>fields\<close> stands for \<open>field_set\<close>.\<close>

fun filter_object :: "string list \<Rightarrow> json \<Rightarrow> json" where
  "filter_object fields (JObj kvs) = JObj (filter (\<lambda>(k, v). k \<in> set fields) kvs)"
| "filter_object fields v = v"

text \<open>
  The field list \<open>filter_fields\<close> settles on, \<open>None\<close> where it returns the data as it is:
  the explicit list (a string is split at commas and each part stripped), else the
  default set of a known, non-empty resource type.
\<close>

definition effective_fields :: "include_spec option \<Rightarrow> string option \<Rightarrow> string list option" where
  "effective_fields include_fields resource_type =
     (case include_fields of
        Some (IncStr s) \<Rightarrow> Some (map strip (split CHR '','' s))
      | Some (IncList fs) \<Rightarrow> Some fs
      | None \<Rightarrow>
          (case resource_type of
             None \<Rightarrow> None
           | Some rt \<Rightarrow> if rt \<noteq> [] then map_of DEFAULT_FIELDS rt else None))"

definition filter_fields :: "json \<Rightarrow> include_spec option \<Rightarrow> string option \<Rightarrow> json" where
  "filter_fields data include_fields resource_type =
     (if include_fields = Some (IncStr ''all'') then data
      else
        (case effective_fields include_fields resource_type of
           None \<Rightarrow> data
         | Some fields \<Rightarrow>
             (case data of
                JList items \<Rightarrow> JList (map (filter_object fields) items)
              | _ \<Rightarrow> filter_object fields data)))"

definition paginate_response :: "json list \<Rightarrow> int \<Rightarrow> int \<Rightarrow> int option \<Rightarrow> pydict" where
  "paginate_response items page per_page total_count =
     (let has_next = (int (length items) = per_page);
          response = [(''items'', JList items),
                      (''page'', JInt page),
                      (''per_page'', JInt per_page),
                      (''has_next'', JBool has_next),
                      (''next_page'', if has_next then JInt (page + 1) else JNull)]
      in case total_count of
           None \<Rightarrow> response
         | Some t \<Rightarrow> dict_set response ''total'' (JInt t))"

section \<open>Faults\<close>

text \<open>
  An HTTP response as the server reads it: \<open>json_body\<close> is what \<open>response.json()\<close> gives,
  \<open>Inl m\<close> when it raises (a \<open>JSONDecodeError\<close>, which is a \<open>ValueError\<close>, with message
  \<open>m\<close>); \<open>resp_text\<close> is \<open>response.text\<close>;
  \<open>status_message\<close> is the message \<open>raise_for_status\<close> gives its fault.
\<close>

record http_response =
  status_code :: int
  resp_text :: string
  json_body :: "string + json"
  status_message :: string

text \<open>
  Where a \<open>ValueError\<close> comes from: the \<open>raise\<close> of a parameter validator, the \<open>raise\<close> of
  \<open>get_gitlab_config\<close>, \<open>response.json()\<close> on a body that does not decode (its
  \<open>JSONDecodeError\<close> is a subclass of \<open>ValueError\<close>), or the interpreter when an integer
  of more digits than its limit is turned into text. The wrapper's \<open>except ValueError\<close>
  takes all four alike.
\<close>

datatype value_error_origin =
    RaisedByValidator
  | RaisedByConfig
  | RaisedByJSONDecode
  | RaisedByIntToStr

text \<open>
  The exceptions a tool body raises, by the first \<open>except\<close> clause of the wrapper that
  takes them; each carries \<open>str(e)\<close>. \<open>OtherError\<close> is any exception that is none of the
  four classes before it.
\<close>

datatype fault =
    HTTPStatusError string http_response
  | ConnectError string
  | TimeoutException string
  | ValueError value_error_origin string
  | OtherError string

section \<open>Python values reaching a validator\<close>

text \<open>
  The validators take \<open>Any\<close>. A float is kept by its \<open>str()\<close> rendering, the only thing
  the server reads from it; \<open>PyObject tn rep\<close> is a value of any other type, with type
  name \<open>tn\<close> and rendering \<open>rep\<close>, on which \<open>int()\<close> raises \<open>TypeError\<close> (a list,
  a dict).
\<close>

datatype pyval =
    PyNone
  | PyBool bool
  | PyInt int
  | PyFloat string
  | PyStr string
  | PyObject string string

text \<open>\<open>type(v).__name__\<close>.\<close>

fun type_name :: "pyval \<Rightarrow> string" where
  "type_name PyNone = ''NoneType''"
| "type_name (PyBool b) = ''bool''"
| "type_name (PyInt i) = ''int''"
| "type_name (PyFloat r) = ''float''"
| "type_name (PyStr s) = ''str''"
| "type_name (PyObject tn rep) = tn"

text \<open>
  The interpreter's limit on integer and text conversion (\<open>sys.int_max_str_digits\<close>, 4300
  unless the process changes it, which the server does not): \<open>str(i)\<close> raises a
  \<open>ValueError\<close> when \<open>i\<close> has more decimal digits than that, the sign not counted.
\<close>

definition INT_MAX_STR_DIGITS :: nat where
  "INT_MAX_STR_DIGITS = 4300"

definition decimal_digits :: "int \<Rightarrow> nat" where
  "decimal_digits i = length (str_of_nat (nat \<bar>i\<bar>))"

definition int_to_str :: "int \<Rightarrow> fault + string" where
  "int_to_str i =
     (if decimal_digits i > INT_MAX_STR_DIGITS then
        Inl (ValueError RaisedByIntToStr
               (''Exceeds the limit (4300 digits) for integer string conversion; ''
                @ ''use sys.set_int_max_str_digits() to increase the limit''))
      else Inr (str_of_int i))"

text \<open>What a field \<open>{v}\<close> of an f-string gives: the text of \<open>v\<close>, or the fault of rendering it.\<close>

fun fstr :: "pyval \<Rightarrow> fault + string" where
  "fstr PyNone = Inr ''None''"
| "fstr (PyBool b) = Inr (if b then ''True'' else ''False'')"
| "fstr (PyInt i) = int_to_str i"
| "fstr (PyFloat r) = Inr r"
| "fstr (PyStr s) = Inr s"
| "fstr (PyObject tn rep) = Inr rep"

text \<open>
  An f-string with one value field, \<open>template\<close> being the text around the field; and
  \<open>raise ValueError(message)\<close> in a validator, where building the message can raise first.
\<close>

definition fstring :: "(string \<Rightarrow> string) \<Rightarrow> pyval \<Rightarrow> fault + string" where
  "fstring template v = (case fstr v of Inl e \<Rightarrow> Inl e | Inr rep \<Rightarrow> Inr (template rep))"

definition raise_ValueError :: "fault + string \<Rightarrow> fault + 'a" where
  "raise_ValueError message =
     (case message of Inl e \<Rightarrow> Inl e | Inr m \<Rightarrow> Inl (ValueError RaisedByValidator m))"

text \<open>\<open>isinstance(v, float)\<close> and \<open>isinstance(v, int)\<close> (a \<open>bool\<close> is an \<open>int\<close>).\<close>

fun isinstance_float :: "pyval \<Rightarrow> bool" where
  "isinstance_float (PyFloat r) = True"
| "isinstance_float v = False"

fun isinstance_int :: "pyval \<Rightarrow> bool" where
  "isinstance_int (PyInt i) = True"
| "isinstance_int (PyBool b) = True"
| "isinstance_int v = False"

text \<open>The number an \<open>int\<close> instance compares as: \<open>False\<close> is 0 and \<open>True\<close> is 1.\<close>

fun int_value :: "pyval \<Rightarrow> int" where
  "int_value (PyInt i) = i"
| "int_value (PyBool b) = (if b then 1 else 0)"
| "int_value v = 0"


definition is_c_space :: "char \<Rightarrow> bool" where
  "is_c_space c = (of_char c \<in> set [9, 10, 11, 12, 13, 32 :: nat])"

definition is_digit :: "char \<Rightarrow> bool" where
  "is_digit c = (48 \<le> (of_char c :: nat) \<and> (of_char c :: nat) \<le> 57)"

definition digit_val :: "char \<Rightarrow> nat" where
  "digit_val c = of_char c - 48"

fun parse_digits :: "nat \<Rightarrow> bool \<Rightarrow> string \<Rightarrow> nat option" where
  "parse_digits acc after_digit [] = (if after_digit then Some acc else None)"
| "parse_digits acc after_digit (c # cs) =
     (if is_digit c then parse_digits (10 * acc + digit_val c) True cs
      else if c = CHR ''_'' \<and> after_digit then parse_digits acc False cs
      else None)"

definition parse_limited :: "string \<Rightarrow> nat option" where
  "parse_limited body =
     (if length (filter is_digit body) > INT_MAX_STR_DIGITS then None
      else parse_digits 0 False body)"

definition int_of_str :: "string \<Rightarrow> int option" where
  "int_of_str s =
     (case rev (dropWhile is_c_space (rev (dropWhile is_c_space s))) of
        [] \<Rightarrow> None
      | c # cs \<Rightarrow>
          if c = CHR ''-'' then map_option (\<lambda>n. - int n) (parse_limited cs)
          else if c = CHR ''+'' then map_option int (parse_limited cs)
          else map_option int (parse_limited (c # cs)))"

text \<open>
  \<open>int(v)\<close> for a value that is neither an \<open>int\<close> nor a \<open>float\<close>; \<open>None\<close> stands for the
  \<open>ValueError\<close> or \<open>TypeError\<close> that the validators catch together.
\<close>

fun py_int :: "pyval \<Rightarrow> pyval option" where
  "py_int (PyStr s) = map_option PyInt (int_of_str s)"
| "py_int v = None"

section \<open>Parameter validators: \<open>server.py\<close>\<close>

definition validate_project_id :: "pyval \<Rightarrow> fault + pyval" where
  "validate_project_id project_id =
     (if isinstance_float project_id then
        raise_ValueError
          (fstring (\<lambda>rep. ''project_id must be an integer, got '' @ type_name project_id
                          @ '': '' @ rep) project_id)
      else
        (case (if \<not> isinstance_int project_id then py_int project_id else Some project_id) of
           None \<Rightarrow>
             raise_ValueError
               (fstring (\<lambda>rep. ''project_id must be an integer, got '' @ type_name project_id
                               @ '': '' @ rep) project_id)
         | Some converted \<Rightarrow>
             if int_value converted \<le> 0 then
               raise_ValueError
                 (fstring (\<lambda>rep. ''project_id must be a positive integer, got: '' @ rep)
                    converted)
             else Inr converted))"


definition validate_branch_name :: "pyval \<Rightarrow> fault + string" where
  "validate_branch_name branch_name =
     (case branch_name of
        PyStr s \<Rightarrow>
          if strip s = [] then
            raise_ValueError (Inr ''branch_name cannot be empty or whitespace only'')
          else Inr (strip s)
      | _ \<Rightarrow>
          raise_ValueError
            (fstring (\<lambda>rep. ''branch_name must be a string, got '' @ type_name branch_name
                            @ '': '' @ rep) branch_name))"

section \<open>Error records: \<open>errors.py\<close>\<close>

text \<open>
  \<open>format_http_error\<close> reads only \<open>error.response\<close>. A status code has three digits, so
  rendering it never meets the digit limit. \<open>details\<close> is the body's
  \<open>message\<close> entry when \<open>json()\<close> returns a dict holding one; a body that does not decode,
  or decodes to something without \<open>get\<close>, raises inside the \<open>try\<close> and leaves the text.
\<close>

definition format_http_error :: "string \<Rightarrow> http_response \<Rightarrow> pydict" where
  "format_http_error error response =
     (let status = status_code response;
          details =
            (case json_body response of
               Inr (JObj response_body) \<Rightarrow>
                 (case map_of response_body ''message'' of
                    Some m \<Rightarrow> m
                  | None \<Rightarrow> JStr (resp_text response))
             | _ \<Rightarrow> JStr (resp_text response))
      in
        if status = 401 then
          [(''error'', JBool True),
           (''error_type'', JStr ''AuthenticationError''),
           (''message'', JStr ''Authentication failed''),
           (''details'', details),
           (''action'', JStr (''Check your GITLAB_TOKEN. Generate a new token at ''
              @ ''https://gitlab.com/-/profile/personal_access_tokens''))]
        else if status = 403 then
          [(''error'', JBool True),
           (''error_type'', JStr ''AuthorizationError''),
           (''message'', JStr ''Access forbidden''),
           (''details'', details),
           (''action'', JStr (''Your token does not have permission for this operation. ''
              @ ''Check token scopes.''))]
        else if status = 404 then
          [(''error'', JBool True),
           (''error_type'', JStr ''NotFoundError''),
           (''message'', JStr ''Resource not found''),
           (''details'', details),
           (''action'', JStr ''Verify the resource ID or path is correct.'')]
        else if status = 422 then
          [(''error'', JBool True),
           (''error_type'', JStr ''ValidationError''),
           (''message'', JStr ''Invalid request parameters''),
           (''details'', details),
           (''action'', JStr ''Check the request parameters and try again.'')]
        else if status = 429 then
          [(''error'', JBool True),
           (''error_type'', JStr ''RateLimitError''),
           (''message'', JStr ''Rate limit exceeded''),
           (''details'', details),
           (''action'', JStr ''Wait before making more requests. Check rate limit headers.'')]
        else if 500 \<le> status \<and> status < 600 then
          [(''error'', JBool True),
           (''error_type'', JStr ''ServerError''),
           (''message'', JStr (''GitLab server error ('' @ str_of_int status @ '')'')),
           (''details'', details),
           (''action'', JStr (''The GitLab server encountered an error. Try again later or ''
              @ ''contact your GitLab administrator.''))]
        else
          [(''error'', JBool True),
           (''error_type'', JStr ''HTTPError''),
           (''message'', JStr (''HTTP error '' @ str_of_int status)),
           (''details'', details),
           (''action'', JStr ''Check the GitLab API documentation for this endpoint.'')])"

definition format_connection_error :: "string \<Rightarrow> pydict" where
  "format_connection_error error =
     [(''error'', JBool True),
      (''error_type'', JStr ''ConnectionError''),
      (''message'', JStr ''Failed to connect to GitLab''),
      (''details'', JStr error),
      (''action'', JStr (''Check your network connection and GITLAB_URL setting. ''
         @ ''Verify the GitLab instance is accessible.''))]"

definition format_timeout_error :: "string \<Rightarrow> pydict" where
  "format_timeout_error error =
     [(''error'', JBool True),
      (''error_type'', JStr ''TimeoutError''),
      (''message'', JStr ''Request timeout''),
      (''details'', JStr error),
      (''action'', JStr (''The GitLab instance is slow or unreachable. ''
         @ ''Try again later or increase the timeout.''))]"

definition format_validation_error :: "string \<Rightarrow> pydict" where
  "format_validation_error error =
     [(''error'', JBool True),
      (''error_type'', JStr ''ValidationError''),
      (''message'', JStr ''Invalid input''),
      (''details'', JStr error),
      (''action'', JStr ''Check the input parameters and try again.'')]"

text \<open>
  The decorator. A tool body runs on a state \<open>'s\<close> (the requests sent so far) and
  returns its value or the fault it raised; the wrapper turns a fault into an error
  record and leaves the state as the body left it. The logging calls are left out.
\<close>

definition handle_gitlab_errors ::
  "('s \<Rightarrow> (fault + json) \<times> 's) \<Rightarrow> 's \<Rightarrow> json \<times> 's" where
  "handle_gitlab_errors func s =
     (case func s of
        (Inr v, s') \<Rightarrow> (v, s')
      | (Inl (HTTPStatusError e response), s') \<Rightarrow> (JObj (format_http_error e response), s')
      | (Inl (ConnectError e), s') \<Rightarrow> (JObj (format_connection_error e), s')
      | (Inl (TimeoutException e), s') \<Rightarrow> (JObj (format_timeout_error e), s')
      | (Inl (ValueError origin e), s') \<Rightarrow> (JObj (format_validation_error e), s')
      | (Inl (OtherError e), s') \<Rightarrow>
          (JObj [(''error'', JBool True),
                 (''error_type'', JStr ''UnexpectedError''),
                 (''message'', JStr ''An unexpected error occurred''),
                 (''details'', JStr e),
                 (''action'', JStr ''Please report this error with the details above.'')], s'))"



text \<open>
  The specification's words for \<open>details\<close>: the message field of the decoded response
  body, when the body is JSON-decodable and holds one.
\<close>

definition message_field :: "http_response \<Rightarrow> json option" where
  "message_field response =
     (case json_body response of
        Inl e \<Rightarrow> None
      | Inr body \<Rightarrow> (case body of JObj entries \<Rightarrow> map_of entries ''message'' | _ \<Rightarrow> None))"

section \<open>Configuration and the request executor: \<open>server.py\<close>\<close>

type_synonym environ = "string \<Rightarrow> string option"

record config =
  base_url :: string
  token :: string
  verify_ssl :: bool

definition get_gitlab_config :: "environ \<Rightarrow> fault + config" where
  "get_gitlab_config getenv =
     (case getenv ''GITLAB_TOKEN'' of
        None \<Rightarrow>
          Inl (ValueError RaisedByConfig (''GITLAB_TOKEN environment variable is required. ''
            @ ''Generate a token at https://gitlab.com/-/profile/personal_access_tokens''))
      | Some tok \<Rightarrow>
          if tok = [] then
            Inl (ValueError RaisedByConfig (''GITLAB_TOKEN environment variable is required. ''
              @ ''Generate a token at https://gitlab.com/-/profile/personal_access_tokens''))
          else
            (let url = (case getenv ''GITLAB_URL'' of None \<Rightarrow> ''https://gitlab.com'' | Some u \<Rightarrow> u)
             in
               if \<not> startswith url ''http://'' \<and> \<not> startswith url ''https://'' then
                 Inl (ValueError RaisedByConfig
                        (''GITLAB_URL must start with http:// or https://, got: '' @ url))
               else
                 (let verify_ssl_str =
                        lower (case getenv ''GITLAB_VERIFY_SSL'' of None \<Rightarrow> ''true'' | Some v \<Rightarrow> v)
                  in Inr \<lparr>base_url = rstrip_chars ''/'' url,
                          token = tok,
                          verify_ssl = (verify_ssl_str \<in> set [''true'', ''1'', ''yes''])\<rparr>)))"

text \<open>One outgoing request, as \<open>client.request\<close> receives it.\<close>

record request =
  req_method :: string
  req_url :: string
  req_params :: "pydict option"
  req_json :: "pydict option"
  req_headers :: "(string \<times> string) list"
  req_verify :: bool

text \<open>
  What the HTTP client does with a request: a response, or one of its faults.
  The remote side is a parameter \<open>remote\<close> of every function that sends.
\<close>

datatype outcome =
    Responded http_response
  | ConnectFailed string
  | TimedOut string
  | Crashed string

definition make_request ::
  "environ \<Rightarrow> (request \<Rightarrow> outcome) \<Rightarrow> string \<Rightarrow> string \<Rightarrow> pydict option \<Rightarrow> pydict option
     \<Rightarrow> request list \<Rightarrow> (fault + json) \<times> request list" where
  "make_request getenv remote method endpoint params json_arg sent =
     (case get_gitlab_config getenv of
        Inl e \<Rightarrow> (Inl e, sent)
      | Inr cfg \<Rightarrow>
          (let req = \<lparr>req_method = method,
                      req_url = base_url cfg @ ''/api/v4/'' @ endpoint,
                      req_params = params,
                      req_json = json_arg,
                      req_headers = [(''PRIVATE-TOKEN'', token cfg),
                                     (''Content-Type'', ''application/json''),
                                     (''User-Agent'', ''gitlab-mcp-server/0.1.0'')],
                      req_verify = verify_ssl cfg\<rparr>;
               sent' = sent @ [req]
           in case remote req of
                ConnectFailed e \<Rightarrow> (Inl (ConnectError e), sent')
              | TimedOut e \<Rightarrow> (Inl (TimeoutException e), sent')
              | Crashed e \<Rightarrow> (Inl (OtherError e), sent')
              | Responded response \<Rightarrow>
                  if 200 \<le> status_code response \<and> status_code response < 300 then
                    (case json_body response of
                       Inl e \<Rightarrow> (Inl (ValueError RaisedByJSONDecode e), sent')
                     | Inr v \<Rightarrow> (Inr v, sent'))
                  else (Inl (HTTPStatusError (status_message response) response), sent')))"

section \<open>Tools: \<open>server.py\<close>\<close>

text \<open>\<open>urllib.parse.quote\<close> with an empty \<open>safe\<close> argument, on the bytes of the string.\<close>

definition always_safe :: "char \<Rightarrow> bool" where
  "always_safe c =
     (let n = (of_char c :: nat) in
      (65 \<le> n \<and> n \<le> 90) \<or> (97 \<le> n \<and> n \<le> 122) \<or> (48 \<le> n \<and> n \<le> 57)
      \<or> c \<in> set ''_.-~'')"

definition hex_digit :: "nat \<Rightarrow> char" where
  "hex_digit d = (if d < 10 then char_of (48 + d) else char_of (55 + d))"

definition quote_byte :: "char \<Rightarrow> string" where
  "quote_byte c =
     (if always_safe c then [c]
      else [CHR ''%'', hex_digit ((of_char c :: nat) div 16), hex_digit ((of_char c :: nat) mod 16)])"

definition quote :: "string \<Rightarrow> string" where
  "quote s = concat (map quote_byte s)"

definition encode_branch_name :: "string \<Rightarrow> string" where
  "encode_branch_name branch = quote branch"

text \<open>
  The tool bodies, before the decorator. The endpoint is an f-string over the validated
  id, so it is built, and can raise, before \<open>make_request\<close> is called.
\<close>

definition get_project_body ::
  "environ \<Rightarrow> (request \<Rightarrow> outcome) \<Rightarrow> pyval \<Rightarrow> string option
     \<Rightarrow> request list \<Rightarrow> (fault + json) \<times> request list" where
  "get_project_body getenv remote project_id include_fields sent =
     (case validate_project_id project_id of
        Inl e \<Rightarrow> (Inl e, sent)
      | Inr pid \<Rightarrow>
          (case fstring (\<lambda>rep. ''projects/'' @ rep) pid of
             Inl e \<Rightarrow> (Inl e, sent)
           | Inr endpoint \<Rightarrow>
               (case make_request getenv remote ''GET'' endpoint None None sent of
                  (Inl e, sent') \<Rightarrow> (Inl e, sent')
                | (Inr response, sent') \<Rightarrow>
                    (Inr (filter_fields response (map_option IncStr include_fields)
                            (Some ''project'')),
                     sent'))))"

definition get_branch_body ::
  "environ \<Rightarrow> (request \<Rightarrow> outcome) \<Rightarrow> pyval \<Rightarrow> pyval \<Rightarrow> string option
     \<Rightarrow> request list \<Rightarrow> (fault + json) \<times> request list" where
  "get_branch_body getenv remote project_id branch include_fields sent =
     (case validate_project_id project_id of
        Inl e \<Rightarrow> (Inl e, sent)
      | Inr pid \<Rightarrow>
          (case validate_branch_name branch of
             Inl e \<Rightarrow> (Inl e, sent)
           | Inr name \<Rightarrow>
               (let encoded_branch = encode_branch_name name in
                case fstring (\<lambda>rep. ''projects/'' @ rep @ ''/repository/branches/''
                                       @ encoded_branch) pid of
                  Inl e \<Rightarrow> (Inl e, sent)
                | Inr endpoint \<Rightarrow>
                    (case make_request getenv remote ''GET'' endpoint None None sent of
                       (Inl e, sent') \<Rightarrow> (Inl e, sent')
                     | (Inr response, sent') \<Rightarrow>
                         (Inr (filter_fields response (map_option IncStr include_fields)
                                 (Some ''branch'')),
                          sent')))))"

text \<open>The tools as registered: the body under \<open>handle_gitlab_errors\<close>.\<close>

definition get_project ::
  "environ \<Rightarrow> (request \<Rightarrow> outcome) \<Rightarrow> pyval \<Rightarrow> string option
     \<Rightarrow> request list \<Rightarrow> json \<times> request list" where
  "get_project getenv remote project_id include_fields =
     handle_gitlab_errors (get_project_body getenv remote project_id include_fields)"

definition get_branch ::
  "environ \<Rightarrow> (request \<Rightarrow> outcome) \<Rightarrow> pyval \<Rightarrow> pyval \<Rightarrow> string option
     \<Rightarrow> request list \<Rightarrow> json \<times> request list" where
  "get_branch getenv remote project_id branch include_fields =
     handle_gitlab_errors (get_branch_body getenv remote project_id branch include_fields)"

section \<open>Helper lemmas\<close>

lemma filter_object_idem: "filter_object fs (filter_object fs v) = filter_object fs v"
  by (cases v) simp_all

lemma record_keys_filter_object: "record_keys (filter_object fs v) \<subseteq> set fs"
  by (cases v) auto

lemma effective_fields_project:
  "effective_fields None (Some ''project'')
     = Some [''id'', ''name'', ''path'', ''description'', ''web_url'', ''visibility'']"
  by (simp add: effective_fields_def DEFAULT_FIELDS_def)

lemma effective_fields_unknown:
  "rt \<notin> set (map fst DEFAULT_FIELDS) \<Longrightarrow> effective_fields None (Some rt) = None"
  by (simp add: effective_fields_def map_of_eq_None_iff)

lemma effective_fields_empty_string:
  "effective_fields (Some (IncStr [])) rt = Some [[]]"
  by (simp add: effective_fields_def split_def strip_def rstrip_def lstrip_def)









lemma format_http_error_details:
  "map_of (format_http_error e response) ''details''
     = Some (case message_field response of Some m \<Rightarrow> m | None \<Rightarrow> JStr (resp_text response))"
  by (simp add: format_http_error_def Let_def message_field_def split: sum.split json.split option.split)












lemma fstr_fault: "fstr v = Inl e \<Longrightarrow> \<exists>m. e = ValueError RaisedByIntToStr m"
  by (cases v) (auto simp: int_to_str_def split: if_splits)

lemma fstring_fault: "fstring template v = Inl e \<Longrightarrow> \<exists>m. e = ValueError RaisedByIntToStr m"
  by (auto simp: fstring_def split: sum.splits dest: fstr_fault)

lemma raise_fstring_fault:
  "(raise_ValueError (fstring template v) :: fault + 'a) = Inl e
     \<Longrightarrow> \<exists>origin m. e = ValueError origin m"
  by (cases "fstring template v") (auto simp: raise_ValueError_def dest: fstring_fault)

lemma validate_project_id_fault:
  "validate_project_id v = Inl e \<Longrightarrow> \<exists>origin m. e = ValueError origin m"
  by (auto simp: validate_project_id_def split: if_splits option.splits dest: raise_fstring_fault)

lemma validate_branch_name_fault:
  "validate_branch_name v = Inl e \<Longrightarrow> \<exists>origin m. e = ValueError origin m"
  by (auto simp: validate_branch_name_def raise_ValueError_def fstring_def int_to_str_def
           split: if_splits pyval.splits sum.splits)




lemma rstrip_chars_slash:
  "(\<exists>k. u = rstrip_chars ''/'' u @ replicate k CHR ''/'')
   \<and> (rstrip_chars ''/'' u = [] \<or> last (rstrip_chars ''/'' u) \<noteq> CHR ''/'')"
proof -
  let ?P = "\<lambda>c. c \<in> set ''/''"
  let ?tw = "takeWhile ?P (rev u)"
  let ?dw = "dropWhile ?P (rev u)"
  have "u = rev (?tw @ ?dw)" by simp
  also have "\<dots> = rev ?dw @ rev ?tw" by (rule rev_append)
  finally have split: "u = rev ?dw @ rev ?tw" .
  have "\<forall>c \<in> set ?tw. c = CHR ''/''"
    using set_takeWhileD [of _ ?P "rev u"] by auto
  then have "replicate (length ?tw) CHR ''/'' = ?tw"
    by (rule replicate_length_same)
  then have "rev ?tw = replicate (length ?tw) CHR ''/''"
    by (metis rev_replicate)
  with split have "u = rstrip_chars ''/'' u @ replicate (length ?tw) CHR ''/''"
    by (simp add: rstrip_chars_def)
  then have first: "\<exists>k. u = rstrip_chars ''/'' u @ replicate k CHR ''/''" ..
  have second: "rstrip_chars ''/'' u = [] \<or> last (rstrip_chars ''/'' u) \<noteq> CHR ''/''"
  proof (cases "?dw = []")
    case True
    then show ?thesis by (simp add: rstrip_chars_def)
  next
    case False
    then have "\<not> ?P (hd ?dw)" by (rule hd_dropWhile)
    moreover from False have "last (rev ?dw) = hd ?dw" by (simp add: last_rev)
    ultimately show ?thesis by (simp add: rstrip_chars_def)
  qed
  from first second show ?thesis by blast
qed

lemma make_request_sends:
  "get_gitlab_config getenv = Inr cfg \<Longrightarrow>
   snd (make_request getenv remote method endpoint params json_arg sent)
     = sent @ [\<lparr>req_method = method,
                req_url = base_url cfg @ ''/api/v4/'' @ endpoint,
                req_params = params,
                req_json = json_arg,
                req_headers = [(''PRIVATE-TOKEN'', token cfg),
                               (''Content-Type'', ''application/json''),
                               (''User-Agent'', ''gitlab-mcp-server/0.1.0'')],
                req_verify = verify_ssl cfg\<rparr>]"
  by (simp add: make_request_def Let_def split: outcome.split sum.split)

lemma handle_gitlab_errors_state:
  "snd (handle_gitlab_errors func s) = snd (func s)"
  by (simp add: handle_gitlab_errors_def split: prod.split sum.split fault.split)

lemma get_project_rejects:
  "validate_project_id pid = Inl (ValueError origin m) \<Longrightarrow>
   get_project getenv remote pid inc sent = (JObj (format_validation_error m), sent)"
  by (simp add: get_project_def get_project_body_def handle_gitlab_errors_def)

lemma get_branch_rejects_id:
  "validate_project_id pid = Inl (ValueError origin m) \<Longrightarrow>
   get_branch getenv remote pid b inc sent = (JObj (format_validation_error m), sent)"
  by (simp add: get_branch_def get_branch_body_def handle_gitlab_errors_def)

lemma get_branch_rejects_name:
  "validate_project_id pid = Inr q \<Longrightarrow> validate_branch_name b = Inl (ValueError origin m) \<Longrightarrow>
   get_branch getenv remote pid b inc sent = (JObj (format_validation_error m), sent)"
  by (simp add: get_branch_def get_branch_body_def handle_gitlab_errors_def)

lemma get_branch_sends:
  assumes "validate_project_id pid = Inr q" and "validate_branch_name b = Inr name"
    and "get_gitlab_config getenv = Inr cfg" and "fstr q = Inr rendered"
  shows "snd (get_branch getenv remote pid b inc sent)
     = sent @ [\<lparr>req_method = ''GET'',
                req_url = base_url cfg @ ''/api/v4/'' @ ''projects/'' @ rendered
                            @ ''/repository/branches/'' @ encode_branch_name name,
                req_params = None,
                req_json = None,
                req_headers = [(''PRIVATE-TOKEN'', token cfg),
                               (''Content-Type'', ''application/json''),
                               (''User-Agent'', ''gitlab-mcp-server/0.1.0'')],
                req_verify = verify_ssl cfg\<rparr>]"
proof -
  let ?endpoint = "''projects/'' @ rendered @ ''/repository/branches/'' @ encode_branch_name name"
  have "snd (get_branch_body getenv remote pid b inc sent)
          = snd (make_request getenv remote ''GET'' ?endpoint None None sent)"
    using assms(1,2,4)
    by (simp add: get_branch_body_def fstring_def Let_def split: prod.split sum.split)
  then show ?thesis
    using make_request_sends [OF assms(3), of remote "''GET''" ?endpoint None None sent]
    by (simp add: get_branch_def handle_gitlab_errors_state)
qed

lemma hex_digit_safe: "d < 16 \<Longrightarrow> always_safe (hex_digit d)"
  by (simp add: hex_digit_def always_safe_def Let_def)

lemma quote_byte_chars: "c' \<in> set (quote_byte c) \<Longrightarrow> always_safe c' \<or> c' = CHR ''%''"
proof -
  have "(of_char c :: nat) < 256" by simp
  then have "(of_char c :: nat) div 16 < 16" and "(of_char c :: nat) mod 16 < 16" by arith+
  then have "always_safe (hex_digit ((of_char c :: nat) div 16))"
    and "always_safe (hex_digit ((of_char c :: nat) mod 16))"
    by (simp_all add: hex_digit_safe)
  moreover assume "c' \<in> set (quote_byte c)"
  ultimately show ?thesis
    by (auto simp: quote_byte_def split: if_splits)
qed

lemma quote_chars: "c \<in> set (quote s) \<Longrightarrow> always_safe c \<or> c = CHR ''%''"
  by (auto simp: quote_def dest: quote_byte_chars)

lemma slash_not_safe: "\<not> always_safe CHR ''/''"
  by (simp add: always_safe_def)

section \<open>Pagination wrapping\<close>

text \<open>
  Claim C2. For every list of items, page, per_page and optional total, the record
  \<open>paginate_response\<close> returns has \<open>has_next\<close> equal to (number of items = per_page)
  whatever the total, \<open>next_page\<close> equal to page + 1 when \<open>has_next\<close> holds and null
  otherwise, and a \<open>total\<close> key exactly when a total was supplied, carrying it unchanged;
  items, page and per_page are carried through.
\<close>

theorem paginate_response_law:
  "map_of (paginate_response items page per_page total_count) ''has_next''
     = Some (JBool (int (length items) = per_page))
   \<and> map_of (paginate_response items page per_page total_count) ''next_page''
     = Some (if int (length items) = per_page then JInt (page + 1) else JNull)
   \<and> map_of (paginate_response items page per_page total_count) ''total''
     = map_option JInt total_count
   \<and> (''total'' \<in> fst ` set (paginate_response items page per_page total_count))
     = (total_count \<noteq> None)
   \<and> map_of (paginate_response items page per_page total_count) ''items'' = Some (JList items)
   \<and> map_of (paginate_response items page per_page total_count) ''page'' = Some (JInt page)
   \<and> map_of (paginate_response items page per_page total_count) ''per_page''
     = Some (JInt per_page)"
  by (cases total_count) (simp_all add: paginate_response_def Let_def)

theorem paginate_response_law_witness:
  "map_of (paginate_response [JInt 1, JInt 2] 3 2 (Some 0)) ''has_next'' = Some (JBool True)
   \<and> map_of (paginate_response [JInt 1, JInt 2] 3 2 (Some 0)) ''next_page'' = Some (JInt 4)
   \<and> map_of (paginate_response [JInt 1, JInt 2] 3 2 (Some 0)) ''total'' = Some (JInt 0)"
  using paginate_response_law [of "[JInt 1, JInt 2]" 3 2 "Some 0"]
  by simp

section \<open>Field filtering\<close>

text \<open>
  Claim C5. With no include list and resource type \<open>project\<close>, every record
  \<open>filter_fields\<close> returns has only top-level keys of the project default set: a single
  record keeps exactly its entries under those keys, and a list comes back item by item,
  each record so filtered, in the same order; with a resource type outside the
  default-set mapping, or none, and no include list, the data comes back unchanged.
\<close>

theorem filter_fields_default_fallback:
  "(\<forall>r \<in> set (records_of (filter_fields data None (Some ''project''))).
      record_keys r \<subseteq> set [''id'', ''name'', ''path'', ''description'', ''web_url'', ''visibility''])
   \<and> filter_fields (JObj kvs) None (Some ''project'')
       = JObj (filter (\<lambda>(k, v). k \<in> set [''id'', ''name'', ''path'', ''description'',
                                           ''web_url'', ''visibility'']) kvs)
   \<and> filter_fields (JList items) None (Some ''project'')
       = JList (map (filter_object [''id'', ''name'', ''path'', ''description'',
                                    ''web_url'', ''visibility'']) items)
   \<and> (rt \<notin> set (map fst DEFAULT_FIELDS) \<longrightarrow> filter_fields data None (Some rt) = data)
   \<and> filter_fields data None None = data"
proof -
  let ?fs = "[''id'', ''name'', ''path'', ''description'', ''web_url'', ''visibility'']"
  have keys: "\<forall>r \<in> set (records_of (filter_fields data None (Some ''project''))).
      record_keys r \<subseteq> set ?fs"
  proof (cases data)
    case (JList items)
    then have "filter_fields data None (Some ''project'') = JList (map (filter_object ?fs) items)"
      by (simp add: filter_fields_def effective_fields_project)
    then show ?thesis
      using record_keys_filter_object [of ?fs] by auto
  next
    case (JObj x)
    then have "filter_fields data None (Some ''project'') = filter_object ?fs data"
      by (simp add: filter_fields_def effective_fields_project)
    then show ?thesis
      using record_keys_filter_object [of ?fs data] JObj by auto
  qed (simp_all add: filter_fields_def effective_fields_project)
  have single: "filter_fields (JObj kvs) None (Some ''project'')
       = JObj (filter (\<lambda>(k, v). k \<in> set ?fs) kvs)"
    by (simp add: filter_fields_def effective_fields_project)
  have unknown: "rt \<notin> set (map fst DEFAULT_FIELDS) \<longrightarrow> filter_fields data None (Some rt) = data"
    by (simp add: filter_fields_def effective_fields_unknown)
  have absent: "filter_fields data None None = data"
    by (simp add: filter_fields_def effective_fields_def)
  have several: "filter_fields (JList items) None (Some ''project'')
       = JList (map (filter_object ?fs) items)"
    by (simp add: filter_fields_def effective_fields_project)
  show ?thesis
    by (intro conjI) (fact keys, fact single, fact several, fact unknown, fact absent)
qed

theorem filter_fields_default_fallback_witness:
  "''wiki'' \<notin> set (map fst DEFAULT_FIELDS)
   \<and> filter_fields (JObj [(''id'', JInt 7), (''star_count'', JInt 3), (''name'', JStr ''demo'')])
        None (Some ''project'')
       = JObj [(''id'', JInt 7), (''name'', JStr ''demo'')]
   \<and> filter_fields (JList [JObj [(''star_count'', JInt 3), (''id'', JInt 7)], JObj [(''name'', JStr ''demo'')]])
        None (Some ''project'')
       = JList [JObj [(''id'', JInt 7)], JObj [(''name'', JStr ''demo'')]]
   \<and> filter_fields (JObj [(''id'', JInt 7), (''star_count'', JInt 3)]) None (Some ''wiki'')
       = JObj [(''id'', JInt 7), (''star_count'', JInt 3)]"
  using filter_fields_default_fallback
    [where data = "JObj [(''id'', JInt 7), (''star_count'', JInt 3)]"
       and kvs = "[(''id'', JInt 7), (''star_count'', JInt 3), (''name'', JStr ''demo'')]"
       and items = "[JObj [(''star_count'', JInt 3), (''id'', JInt 7)], JObj [(''name'', JStr ''demo'')]]"
       and rt = "''wiki''"]
  by (simp add: DEFAULT_FIELDS_def)

text \<open>
  Claim C6. Field filtering is idempotent: for every data value and every fixed filter
  specification (include list and resource type), filtering the filtered data again
  gives the filtered data.
\<close>

theorem filter_fields_idempotent:
  "filter_fields (filter_fields data include_fields resource_type) include_fields resource_type
     = filter_fields data include_fields resource_type"
proof (cases "include_fields = Some (IncStr ''all'')")
  case True
  then show ?thesis by (simp add: filter_fields_def)
next
  case False
  show ?thesis
  proof (cases "effective_fields include_fields resource_type")
    case None
    with False show ?thesis by (simp add: filter_fields_def)
  next
    case (Some fs)
    with False show ?thesis
      by (cases data) (simp_all add: filter_fields_def filter_object_idem)
  qed
qed

theorem filter_fields_idempotent_witness:
  "filter_fields
     (filter_fields (JList [JObj [(''id'', JInt 7), (''star_count'', JInt 3)]])
        (Some (IncStr ''id, name'')) None)
     (Some (IncStr ''id, name'')) None
   = filter_fields (JList [JObj [(''id'', JInt 7), (''star_count'', JInt 3)]])
       (Some (IncStr ''id, name'')) None"
  using filter_fields_idempotent
    [of "JList [JObj [(''id'', JInt 7), (''star_count'', JInt 3)]]" "Some (IncStr ''id, name'')" None]
  by simp

text \<open>
  Claim C10, as the code has it. The empty string as include specification is an
  explicit filter, the one-element list holding the empty field name: of every record
  exactly the entries whose key is the empty string are kept, so a record with no
  empty-string key becomes the empty record, and a list of such records a list of empty
  records, whatever the resource type.
\<close>

theorem filter_fields_empty_string:
  "effective_fields (Some (IncStr [])) rt = Some [[]]
   \<and> filter_fields (JObj kvs) (Some (IncStr [])) rt = JObj (filter (\<lambda>(k, v). k = []) kvs)
   \<and> ([] \<notin> fst ` set kvs \<longrightarrow> filter_fields (JObj kvs) (Some (IncStr [])) rt = JObj [])
   \<and> filter_fields (JList items) (Some (IncStr [])) rt = JList (map (filter_object [[]]) items)
   \<and> ((\<forall>r \<in> set items. \<exists>d. r = JObj d \<and> [] \<notin> fst ` set d)
        \<longrightarrow> filter_fields (JList items) (Some (IncStr [])) rt = JList (map (\<lambda>r. JObj []) items))"
proof -
  have drop_all: "[] \<notin> fst ` set d \<Longrightarrow> filter (\<lambda>(k, v). k = []) d = []" for d :: pydict
    by (induction d) auto
  have one: "filter_fields (JObj kvs) (Some (IncStr [])) rt = JObj (filter (\<lambda>(k, v). k = []) kvs)"
    by (simp add: filter_fields_def effective_fields_empty_string)
  have many: "filter_fields (JList items) (Some (IncStr [])) rt
                = JList (map (filter_object [[]]) items)"
    by (simp add: filter_fields_def effective_fields_empty_string)
  have "(\<forall>r \<in> set items. \<exists>d. r = JObj d \<and> [] \<notin> fst ` set d)
          \<Longrightarrow> map (filter_object [[]]) items = map (\<lambda>r. JObj []) items"
    by (rule map_cong) (auto simp: drop_all)
  with one many drop_all [of kvs] effective_fields_empty_string [of rt] show ?thesis
    by auto
qed

theorem filter_fields_empty_string_witness:
  "[] \<notin> fst ` set [(''id'', JInt 7), (''name'', JStr ''demo'')]
   \<and> filter_fields (JObj [(''id'', JInt 7), (''name'', JStr ''demo'')]) (Some (IncStr [])) None
       = JObj []
   \<and> filter_fields (JList [JObj [(''id'', JInt 7)], JObj []]) (Some (IncStr [])) None
       = JList [JObj [], JObj []]"
  using filter_fields_empty_string
    [of None "[(''id'', JInt 7), (''name'', JStr ''demo'')]" "[JObj [(''id'', JInt 7)], JObj []]"]
  by simp

text \<open>
  The claim as first stated, that every top-level key is dropped and the result is never
  the unfiltered data, fails on a record that has the empty string as a key.
\<close>

theorem filter_fields_empty_string_counterexample:
  "filter_fields (JObj [([], JInt 1)]) (Some (IncStr [])) (Some ''project'') = JObj [([], JInt 1)]
   \<and> filter_fields (JObj [([], JInt 1)]) (Some (IncStr [])) (Some ''project'') \<noteq> JObj []"
  by (simp add: filter_fields_def effective_fields_empty_string)

section \<open>Error classification\<close>




text \<open>
  Claim C8. For every HTTP status fault the details of the error record are the message
  field of the decoded response body when the body decodes and holds one, else the raw
  response text. The text is always there, so the fault's own string representation
  (\<open>e\<close> below) is never what the record carries in its place.
\<close>

theorem http_error_details:
  "map_of (format_http_error e response) ''details''
     = Some (case message_field response of Some m \<Rightarrow> m | None \<Rightarrow> JStr (resp_text response))
   \<and> (func s = (Inl (HTTPStatusError e response), s') \<longrightarrow>
        (\<exists>r. handle_gitlab_errors func s = (JObj r, s')
           \<and> map_of r ''details''
               = Some (case message_field response of
                         Some m \<Rightarrow> m
                       | None \<Rightarrow> JStr (resp_text response))))"
  by (simp add: format_http_error_details handle_gitlab_errors_def)

theorem http_error_details_witness:
  "(\<exists>r. handle_gitlab_errors
          (\<lambda>s. (Inl (HTTPStatusError ''Client error 404''
                       \<lparr>status_code = 404, resp_text = ''raw body'',
                        json_body = Inr (JObj [(''message'', JStr ''404 Not Found'')]),
                        status_message = ''Client error 404''\<rparr>), s)) (0 :: nat)
        = (JObj r, 0)
      \<and> map_of r ''details'' = Some (JStr ''404 Not Found''))
   \<and> map_of (format_http_error ''Client error 404''
             \<lparr>status_code = 404, resp_text = ''Not Found'',
              json_body = Inl ''Expecting value'',
              status_message = ''Client error 404''\<rparr>) ''details''
     = Some (JStr ''Not Found'')"
  using http_error_details
    [of "''Client error 404''"
        "\<lparr>status_code = 404, resp_text = ''raw body'',
          json_body = Inr (JObj [(''message'', JStr ''404 Not Found'')]),
          status_message = ''Client error 404''\<rparr>"
        "\<lambda>s. (Inl (HTTPStatusError ''Client error 404''
                       \<lparr>status_code = 404, resp_text = ''raw body'',
                        json_body = Inr (JObj [(''message'', JStr ''404 Not Found'')]),
                        status_message = ''Client error 404''\<rparr>), s)" "0 :: nat" 0]
    http_error_details
    [of "''Client error 404''"
        "\<lparr>status_code = 404, resp_text = ''Not Found'',
          json_body = Inl ''Expecting value'',
          status_message = ''Client error 404''\<rparr>"
        "\<lambda>s. (Inr JNull, s)" "0 :: nat" 0]
  by (auto simp: message_field_def)

section \<open>Parameter validation\<close>




section \<open>Configuration resolution\<close>

text \<open>
  Claim C7. \<open>get_gitlab_config\<close> fails (with the \<open>ValueError\<close> that is the server's
  configuration fault) when the token variable is absent or empty, and when the base URL,
  given or defaulted, starts with neither \<open>http://\<close> nor \<open>https://\<close>. Otherwise it
  succeeds: the base URL is the given one without its trailing slashes, all of them, and
  the TLS flag is true exactly when the variable is absent or reads \<open>true\<close>, \<open>1\<close> or
  \<open>yes\<close> in any letter case.
\<close>

theorem config_resolution:
  "((getenv ''GITLAB_TOKEN'' = None \<or> getenv ''GITLAB_TOKEN'' = Some [])
      \<longrightarrow> (\<exists>m. get_gitlab_config getenv = Inl (ValueError RaisedByConfig m)))
   \<and> ((case getenv ''GITLAB_URL'' of None \<Rightarrow> ''https://gitlab.com'' | Some u \<Rightarrow> u) = url
       \<and> \<not> startswith url ''http://'' \<and> \<not> startswith url ''https://''
      \<longrightarrow> (\<exists>m. get_gitlab_config getenv = Inl (ValueError RaisedByConfig m)))
   \<and> (getenv ''GITLAB_TOKEN'' = Some tok \<and> tok \<noteq> []
       \<and> (case getenv ''GITLAB_URL'' of None \<Rightarrow> ''https://gitlab.com'' | Some u \<Rightarrow> u) = url
       \<and> (startswith url ''http://'' \<or> startswith url ''https://'')
      \<longrightarrow> (\<exists>cfg k. get_gitlab_config getenv = Inr cfg
             \<and> token cfg = tok
             \<and> url = base_url cfg @ replicate k CHR ''/''
             \<and> (base_url cfg = [] \<or> last (base_url cfg) \<noteq> CHR ''/'')
             \<and> verify_ssl cfg
                 = (case getenv ''GITLAB_VERIFY_SSL'' of
                      None \<Rightarrow> True
                    | Some v \<Rightarrow> lower v = ''true'' \<or> lower v = ''1'' \<or> lower v = ''yes'')))"
proof -
  have lower_true: "lower ''true'' = ''true''" by code_simp
  have no_token: "(getenv ''GITLAB_TOKEN'' = None \<or> getenv ''GITLAB_TOKEN'' = Some [])
      \<longrightarrow> (\<exists>m. get_gitlab_config getenv = Inl (ValueError RaisedByConfig m))"
    by (auto simp: get_gitlab_config_def)
  have bad_url: "(case getenv ''GITLAB_URL'' of None \<Rightarrow> ''https://gitlab.com'' | Some u \<Rightarrow> u) = url
       \<and> \<not> startswith url ''http://'' \<and> \<not> startswith url ''https://''
      \<longrightarrow> (\<exists>m. get_gitlab_config getenv = Inl (ValueError RaisedByConfig m))"
    by (auto simp: get_gitlab_config_def Let_def split: option.split)
  have good: "\<exists>cfg k. get_gitlab_config getenv = Inr cfg
             \<and> token cfg = tok
             \<and> url = base_url cfg @ replicate k CHR ''/''
             \<and> (base_url cfg = [] \<or> last (base_url cfg) \<noteq> CHR ''/'')
             \<and> verify_ssl cfg
                 = (case getenv ''GITLAB_VERIFY_SSL'' of
                      None \<Rightarrow> True
                    | Some v \<Rightarrow> lower v = ''true'' \<or> lower v = ''1'' \<or> lower v = ''yes'')"
    if tok: "getenv ''GITLAB_TOKEN'' = Some tok" "tok \<noteq> []"
      and url: "(case getenv ''GITLAB_URL'' of None \<Rightarrow> ''https://gitlab.com'' | Some u \<Rightarrow> u) = url"
      and scheme: "startswith url ''http://'' \<or> startswith url ''https://''"
  proof -
    let ?flag = "lower (case getenv ''GITLAB_VERIFY_SSL'' of None \<Rightarrow> ''true'' | Some v \<Rightarrow> v)"
    let ?cfg = "\<lparr>base_url = rstrip_chars ''/'' url, token = tok,
                  verify_ssl = (?flag \<in> set [''true'', ''1'', ''yes''])\<rparr>"
    from tok url scheme have res: "get_gitlab_config getenv = Inr ?cfg"
      by (auto simp: get_gitlab_config_def Let_def)
    obtain k where k: "url = rstrip_chars ''/'' url @ replicate k CHR ''/''"
      using rstrip_chars_slash [of url] by blast
    have tail: "rstrip_chars ''/'' url = [] \<or> last (rstrip_chars ''/'' url) \<noteq> CHR ''/''"
      using rstrip_chars_slash [of url] by blast
    have flag: "(?flag \<in> set [''true'', ''1'', ''yes''])
        = (case getenv ''GITLAB_VERIFY_SSL'' of
             None \<Rightarrow> True
           | Some v \<Rightarrow> lower v = ''true'' \<or> lower v = ''1'' \<or> lower v = ''yes'')"
      using lower_true by (simp split: option.split)
    from res k tail flag show ?thesis
      by (intro exI [of _ ?cfg] exI [of _ k]) simp
  qed
  from no_token bad_url good show ?thesis by blast
qed

theorem config_resolution_witness:
  "(\<exists>m. get_gitlab_config (\<lambda>name. None) = Inl (ValueError RaisedByConfig m))
   \<and> (\<exists>m. get_gitlab_config [''GITLAB_TOKEN'' \<mapsto> ''''] = Inl (ValueError RaisedByConfig m))
   \<and> (\<exists>m. get_gitlab_config [''GITLAB_TOKEN'' \<mapsto> ''glpat'', ''GITLAB_URL'' \<mapsto> ''gitlab.example.com'']
           = Inl (ValueError RaisedByConfig m))
   \<and> (\<exists>cfg k. get_gitlab_config
                  [''GITLAB_TOKEN'' \<mapsto> ''glpat'', ''GITLAB_URL'' \<mapsto> ''https://gitlab.example.com//'',
                   ''GITLAB_VERIFY_SSL'' \<mapsto> ''Yes'']
                = Inr cfg
        \<and> token cfg = ''glpat''
        \<and> ''https://gitlab.example.com//'' = base_url cfg @ replicate k CHR ''/''
        \<and> (base_url cfg = [] \<or> last (base_url cfg) \<noteq> CHR ''/'')
        \<and> verify_ssl cfg = True)"
proof -
  have yes: "lower ''Yes'' = ''yes''" by code_simp
  have bad: "\<not> startswith ''gitlab.example.com'' ''http://''
             \<and> \<not> startswith ''gitlab.example.com'' ''https://''"
    by (simp add: startswith_def)
  have ok: "startswith ''https://gitlab.example.com//'' ''https://''"
    by (simp add: startswith_def)
  show ?thesis
    using yes bad ok
      config_resolution [of "\<lambda>name. None" "''https://gitlab.com''" "''t''"]
      config_resolution [of "[''GITLAB_TOKEN'' \<mapsto> '''']" "''https://gitlab.com''" "''t''"]
      config_resolution
        [of "[''GITLAB_TOKEN'' \<mapsto> ''glpat'', ''GITLAB_URL'' \<mapsto> ''gitlab.example.com'']"
            "''gitlab.example.com''" "''glpat''"]
      config_resolution
        [of "[''GITLAB_TOKEN'' \<mapsto> ''glpat'', ''GITLAB_URL'' \<mapsto> ''https://gitlab.example.com//'',
              ''GITLAB_VERIFY_SSL'' \<mapsto> ''Yes'']"
            "''https://gitlab.example.com//''" "''glpat''"]
    by simp
qed

section \<open>Tools: validation first, encoded path segments\<close>

text \<open>
  Claim C4. \<open>get_project\<close> with \<open>project_id = -1\<close> sends no request (the list of requests
  sent is the one it started with) and returns an error record with error true and
  error_type ValidationError. More generally, validation runs before the network call: in
  \<open>get_project\<close> and \<open>get_branch\<close>, whenever a parameter validator raises, the fault is a
  \<open>ValueError\<close>, the tool returns its ValidationError record, and no request is sent.
\<close>

theorem validation_before_request:
  "get_project getenv remote (PyInt (- 1)) inc sent
     = (JObj [(''error'', JBool True),
              (''error_type'', JStr ''ValidationError''),
              (''message'', JStr ''Invalid input''),
              (''details'', JStr ''project_id must be a positive integer, got: -1''),
              (''action'', JStr ''Check the input parameters and try again.'')], sent)
   \<and> (validate_project_id pid = Inl e \<longrightarrow>
        (\<exists>origin m. e = ValueError origin m
           \<and> get_project getenv remote pid inc sent = (JObj (format_validation_error m), sent)
           \<and> map_of (format_validation_error m) ''error'' = Some (JBool True)
           \<and> map_of (format_validation_error m) ''error_type'' = Some (JStr ''ValidationError'')))
   \<and> (validate_project_id pid' = Inl e'
        \<or> (\<exists>q. validate_project_id pid' = Inr q) \<and> validate_branch_name b = Inl e' \<longrightarrow>
        (\<exists>origin m. e' = ValueError origin m
           \<and> get_branch getenv remote pid' b inc sent = (JObj (format_validation_error m), sent)))"
proof -
  have "validate_project_id (PyInt (- 1))
          = Inl (ValueError RaisedByValidator ''project_id must be a positive integer, got: -1'')"
    by code_simp
  then have first: "get_project getenv remote (PyInt (- 1)) inc sent
     = (JObj [(''error'', JBool True),
              (''error_type'', JStr ''ValidationError''),
              (''message'', JStr ''Invalid input''),
              (''details'', JStr ''project_id must be a positive integer, got: -1''),
              (''action'', JStr ''Check the input parameters and try again.'')], sent)"
    using get_project_rejects [of "PyInt (- 1)"] by (simp add: format_validation_error_def)
  have second: "validate_project_id pid = Inl e \<longrightarrow>
        (\<exists>origin m. e = ValueError origin m
           \<and> get_project getenv remote pid inc sent = (JObj (format_validation_error m), sent)
           \<and> map_of (format_validation_error m) ''error'' = Some (JBool True)
           \<and> map_of (format_validation_error m) ''error_type'' = Some (JStr ''ValidationError''))"
    using validate_project_id_fault [of pid e] get_project_rejects [of pid]
    by (auto simp: format_validation_error_def)
  have third: "validate_project_id pid' = Inl e'
        \<or> (\<exists>q. validate_project_id pid' = Inr q) \<and> validate_branch_name b = Inl e' \<longrightarrow>
        (\<exists>origin m. e' = ValueError origin m
           \<and> get_branch getenv remote pid' b inc sent = (JObj (format_validation_error m), sent))"
    using validate_project_id_fault [of pid' e'] validate_branch_name_fault [of b e']
      get_branch_rejects_id [of pid' _ _ getenv remote b inc sent]
      get_branch_rejects_name [of pid' _ b _ _ getenv remote inc sent]
    by metis
  show ?thesis
    by (intro conjI) (fact first, fact second, fact third)
qed

theorem validation_before_request_witness:
  "validate_project_id (PyStr ''abc'')
     = Inl (ValueError RaisedByValidator ''project_id must be an integer, got str: abc'')
   \<and> get_project [''GITLAB_TOKEN'' \<mapsto> ''glpat''] (\<lambda>req. TimedOut ''timed out'') (PyStr ''abc'') None []
       = (JObj (format_validation_error ''project_id must be an integer, got str: abc''), [])
   \<and> validate_project_id (PyInt 123) = Inr (PyInt 123)
   \<and> validate_branch_name (PyStr ''  '')
       = Inl (ValueError RaisedByValidator ''branch_name cannot be empty or whitespace only'')
   \<and> get_branch [''GITLAB_TOKEN'' \<mapsto> ''glpat''] (\<lambda>req. TimedOut ''timed out'')
         (PyInt 123) (PyStr ''  '') None []
       = (JObj (format_validation_error ''branch_name cannot be empty or whitespace only''), [])
   \<and> get_project [''GITLAB_TOKEN'' \<mapsto> ''glpat''] (\<lambda>req. TimedOut ''timed out'') (PyInt (- 1)) None []
       = (JObj [(''error'', JBool True),
                (''error_type'', JStr ''ValidationError''),
                (''message'', JStr ''Invalid input''),
                (''details'', JStr ''project_id must be a positive integer, got: -1''),
                (''action'', JStr ''Check the input parameters and try again.'')], [])"
proof -
  have a: "validate_project_id (PyStr ''abc'')
     = Inl (ValueError RaisedByValidator ''project_id must be an integer, got str: abc'')"
    by code_simp
  have b: "validate_project_id (PyInt 123) = Inr (PyInt 123)"
    by (simp add: validate_project_id_def)
  have c: "validate_branch_name (PyStr ''  '')
       = Inl (ValueError RaisedByValidator ''branch_name cannot be empty or whitespace only'')"
    by code_simp
  show ?thesis
    using a b c
      validation_before_request
        [where getenv = "[''GITLAB_TOKEN'' \<mapsto> ''glpat'']"
           and remote = "\<lambda>req. TimedOut ''timed out''" and inc = None and sent = "[]"
           and pid = "PyStr ''abc''"
           and e = "ValueError RaisedByValidator ''project_id must be an integer, got str: abc''"
           and pid' = "PyInt 123" and b = "PyStr ''  ''"
           and e' = "ValueError RaisedByValidator ''branch_name cannot be empty or whitespace only''"]
    by simp
qed

text \<open>
  Claim C9. \<open>get_branch\<close> with \<open>project_id = 123\<close> and branch \<open>feature/test-branch\<close>, under
  a configuration that resolves, sends one GET request whose URL ends in the path
  \<open>projects/123/repository/branches/feature%2Ftest-branch\<close>. In general the validated
  branch name goes into the endpoint, after the text of the validated id, percent-encoded
  with an empty \<open>safe\<close> set (an id whose text cannot be built sends nothing): every
  byte other than a letter, a digit, \<open>_\<close>, \<open>.\<close>, \<open>-\<close> or \<open>~\<close> becomes \<open>%\<close> and two
  hexadecimal digits, so no slash is left in the segment.
\<close>

theorem get_branch_encodes_name:
  "encode_branch_name ''feature/test-branch'' = ''feature%2Ftest-branch''
   \<and> (get_gitlab_config getenv = Inr cfg \<longrightarrow>
        (\<exists>req. snd (get_branch getenv remote (PyInt 123) (PyStr ''feature/test-branch'') inc sent)
                 = sent @ [req]
           \<and> req_method req = ''GET''
           \<and> req_url req
               = base_url cfg @ ''/api/v4/projects/123/repository/branches/feature%2Ftest-branch''))
   \<and> (validate_project_id pid = Inr q \<and> validate_branch_name b = Inr name
        \<and> get_gitlab_config getenv = Inr cfg \<and> fstr q = Inr rendered \<longrightarrow>
        (\<exists>req. snd (get_branch getenv remote pid b inc sent) = sent @ [req]
           \<and> req_url req = base_url cfg @ ''/api/v4/projects/'' @ rendered
                             @ ''/repository/branches/'' @ encode_branch_name name))
   \<and> (validate_project_id pid = Inr q \<and> validate_branch_name b = Inr name
        \<and> fstr q = Inl e \<longrightarrow>
        get_branch getenv remote pid b inc sent
          = (fst (handle_gitlab_errors (\<lambda>s. (Inl e, s)) sent), sent))
   \<and> encode_branch_name name
       = concat (map (\<lambda>c. if always_safe c then [c]
                          else [CHR ''%'', hex_digit ((of_char c :: nat) div 16),
                                hex_digit ((of_char c :: nat) mod 16)]) name)
   \<and> (\<forall>c \<in> set (encode_branch_name name). always_safe c \<or> c = CHR ''%'')
   \<and> CHR ''/'' \<notin> set (encode_branch_name name)"
proof -
  have enc: "encode_branch_name ''feature/test-branch'' = ''feature%2Ftest-branch''"
    by code_simp
  have pid_ok: "validate_project_id (PyInt 123) = Inr (PyInt 123)"
    by (simp add: validate_project_id_def)
  have name_ok: "validate_branch_name (PyStr ''feature/test-branch'') = Inr ''feature/test-branch''"
    by code_simp
  have num: "fstr (PyInt 123) = Inr ''123''" by code_simp
  have general: "\<exists>req. snd (get_branch getenv remote pid b inc sent) = sent @ [req]
           \<and> req_method req = ''GET''
           \<and> req_url req = base_url cfg @ ''/api/v4/projects/'' @ rendered
                             @ ''/repository/branches/'' @ encode_branch_name name"
    if "validate_project_id pid = Inr q" "validate_branch_name b = Inr name"
      "get_gitlab_config getenv = Inr cfg" "fstr q = Inr rendered" for pid q b name cfg rendered
    using get_branch_sends [OF that, of remote inc sent] by simp
  have general_imp: "validate_project_id pid = Inr q \<and> validate_branch_name b = Inr name
        \<and> get_gitlab_config getenv = Inr cfg \<and> fstr q = Inr rendered \<longrightarrow>
        (\<exists>req. snd (get_branch getenv remote pid b inc sent) = sent @ [req]
           \<and> req_url req = base_url cfg @ ''/api/v4/projects/'' @ rendered
                             @ ''/repository/branches/'' @ encode_branch_name name)"
  proof
    assume a: "validate_project_id pid = Inr q \<and> validate_branch_name b = Inr name
        \<and> get_gitlab_config getenv = Inr cfg \<and> fstr q = Inr rendered"
    then obtain req where "snd (get_branch getenv remote pid b inc sent) = sent @ [req]"
      and "req_url req = base_url cfg @ ''/api/v4/projects/'' @ rendered
                             @ ''/repository/branches/'' @ encode_branch_name name"
      using general [of pid q b name cfg rendered] by auto
    then show "\<exists>req. snd (get_branch getenv remote pid b inc sent) = sent @ [req]
           \<and> req_url req = base_url cfg @ ''/api/v4/projects/'' @ rendered
                             @ ''/repository/branches/'' @ encode_branch_name name"
      by (intro exI [of _ req]) simp
  qed
  have unrendered: "validate_project_id pid = Inr q \<and> validate_branch_name b = Inr name
        \<and> fstr q = Inl e \<longrightarrow>
        get_branch getenv remote pid b inc sent
          = (fst (handle_gitlab_errors (\<lambda>s. (Inl e, s)) sent), sent)"
    by (auto simp: get_branch_def get_branch_body_def fstring_def handle_gitlab_errors_def
             split: fault.split)
  have scenario: "get_gitlab_config getenv = Inr cfg \<longrightarrow>
        (\<exists>req. snd (get_branch getenv remote (PyInt 123) (PyStr ''feature/test-branch'') inc sent)
                 = sent @ [req]
           \<and> req_method req = ''GET''
           \<and> req_url req
               = base_url cfg @ ''/api/v4/projects/123/repository/branches/feature%2Ftest-branch'')"
    using general [OF pid_ok name_ok _ num, of cfg] by (simp add: enc)
  have shape: "encode_branch_name name
       = concat (map (\<lambda>c. if always_safe c then [c]
                          else [CHR ''%'', hex_digit ((of_char c :: nat) div 16),
                                hex_digit ((of_char c :: nat) mod 16)]) name)"
    by (simp add: encode_branch_name_def quote_def quote_byte_def [abs_def])
  have chars: "\<forall>c \<in> set (encode_branch_name name). always_safe c \<or> c = CHR ''%''"
    using quote_chars [of _ name] by (auto simp: encode_branch_name_def)
  then have no_slash: "CHR ''/'' \<notin> set (encode_branch_name name)"
    using slash_not_safe by auto
  show ?thesis
    by (intro conjI)
      (fact enc, fact scenario, fact general_imp, fact unrendered, fact shape, fact chars,
       fact no_slash)
qed

theorem get_branch_encodes_name_witness:
  "get_gitlab_config [''GITLAB_TOKEN'' \<mapsto> ''glpat'']
     = Inr \<lparr>base_url = ''https://gitlab.com'', token = ''glpat'', verify_ssl = True\<rparr>
   \<and> (\<exists>req. snd (get_branch [''GITLAB_TOKEN'' \<mapsto> ''glpat''] (\<lambda>req. TimedOut ''timed out'')
                   (PyInt 123) (PyStr ''feature/test-branch'') None [])
               = [req]
         \<and> req_method req = ''GET''
         \<and> req_url req
             = ''https://gitlab.com/api/v4/projects/123/repository/branches/feature%2Ftest-branch'')
   \<and> encode_branch_name ''feature/test-branch'' = ''feature%2Ftest-branch''
   \<and> validate_project_id (PyInt 7) = Inr (PyInt 7)
   \<and> validate_branch_name (PyStr '' release/1.0 '') = Inr ''release/1.0''
   \<and> fstr (PyInt 7) = Inr ''7''
   \<and> (\<exists>req. snd (get_branch [''GITLAB_TOKEN'' \<mapsto> ''glpat''] (\<lambda>req. TimedOut ''timed out'')
                   (PyInt 7) (PyStr '' release/1.0 '') None [])
               = [req]
         \<and> req_url req
             = ''https://gitlab.com/api/v4/projects/7/repository/branches/release%2F1.0'')"
proof -
  have pid: "validate_project_id (PyInt 7) = Inr (PyInt 7)"
    by (simp add: validate_project_id_def)
  have name: "validate_branch_name (PyStr '' release/1.0 '') = Inr ''release/1.0''"
    by code_simp
  have enc: "encode_branch_name ''release/1.0'' = ''release%2F1.0''"
    by code_simp
  have seven: "fstr (PyInt 7) = Inr ''7''"
    by code_simp
  have cfg: "get_gitlab_config [''GITLAB_TOKEN'' \<mapsto> ''glpat'']
     = Inr \<lparr>base_url = ''https://gitlab.com'', token = ''glpat'', verify_ssl = True\<rparr>"
    by code_simp
  note inst = get_branch_encodes_name
        [where getenv = "[''GITLAB_TOKEN'' \<mapsto> ''glpat'']"
           and cfg = "\<lparr>base_url = ''https://gitlab.com'', token = ''glpat'', verify_ssl = True\<rparr>"
           and remote = "\<lambda>req. TimedOut ''timed out''" and inc = None and sent = "[]"
           and pid = "PyInt 7" and q = "PyInt 7" and b = "PyStr '' release/1.0 ''"
           and name = "''release/1.0''" and rendered = "''7''"]
  note scenario = inst [THEN conjunct2, THEN conjunct1, THEN mp, OF cfg]
  note general = inst [THEN conjunct2, THEN conjunct2, THEN conjunct1, THEN mp,
                       OF conjI [OF pid conjI [OF name conjI [OF cfg seven]]]]
  from general have general':
    "\<exists>req. snd (get_branch [''GITLAB_TOKEN'' \<mapsto> ''glpat''] (\<lambda>req. TimedOut ''timed out'')
                   (PyInt 7) (PyStr '' release/1.0 '') None [])
               = [req]
         \<and> req_url req
             = ''https://gitlab.com/api/v4/projects/7/repository/branches/release%2F1.0''"
    by (simp add: enc)
  from scenario have scenario':
    "\<exists>req. snd (get_branch [''GITLAB_TOKEN'' \<mapsto> ''glpat''] (\<lambda>req. TimedOut ''timed out'')
                   (PyInt 123) (PyStr ''feature/test-branch'') None [])
               = [req]
         \<and> req_method req = ''GET''
         \<and> req_url req
             = ''https://gitlab.com/api/v4/projects/123/repository/branches/feature%2Ftest-branch''"
    by simp
  show ?thesis
    by (intro conjI) (fact cfg, fact scenario', fact inst [THEN conjunct1], fact pid, fact name,
      fact seven, fact general')
qed

end
